theory Spec2Isabelle
  imports Main "HOL-Library.Sublist"
begin

section \<open>Python values, exceptions and strings\<close>

text \<open>
  A Python \<open>str\<close> is a sequence of code points. The model has the code points below 256,
  one \<^typ>\<open>char\<close> each, so \<open>CHR 0xB2\<close> is the single code point U+00B2 (superscript two).
\<close>

text \<open>
  Exceptions are values. An exception raised by \<open>keyof.py\<close> carries the message the
  source builds; one raised by the interpreter (\<open>getattr\<close>, subscription, \<open>int\<close>)
  carries its kind only: the \<open>except\<close> clauses of the source look at nothing else.
\<close>

datatype exc_kind = AttributeError | KeyError | IndexError | TypeError | ValueError

datatype exn = Raised exc_kind string | Host exc_kind

fun kind :: "exn \<Rightarrow> exc_kind" where
  "kind (Raised k m) = k"
| "kind (Host k) = k"

text \<open>
  The instances a path is replayed against. \<open>PNone\<close> is \<open>None\<close>. Any other value is
  described by what the replay can observe of it: the name of its class
  (\<open>type(v).__name__\<close>), the attributes that \<open>getattr\<close> finds on it (a name absent from
  the table raises \<open>AttributeError\<close>), and its body, which decides \<open>isinstance\<close> and
  subscription: an \<open>int\<close>, a \<open>str\<close>, a \<open>list\<close>, a \<open>tuple\<close>, a \<open>dict\<close> (or an
  instance of a subclass of these), or a plain object that is not subscriptable.
  A \<open>dict\<close> body keeps its entries under \<open>str\<close> keys: the replay subscripts a mapping with
  a \<open>str\<close> only, and no key of another type compares equal to one.
\<close>

datatype pyval =
    PNone
  | PObj string "(string \<times> pyval) list" pybody
and pybody =
    Plain
  | BInt int
  | BStr string
  | BList "pyval list"
  | BTuple "pyval list"
  | BDict "(string \<times> pyval) list"

text \<open>
  Values of the built-in classes and of record-like classes. The built-in ones are given
  an empty attribute table: they stand for values on which no segment of the replayed
  path names a method of the class.
\<close>

definition py_int :: "int \<Rightarrow> pyval" where
  "py_int n = PObj ''int'' [] (BInt n)"

definition py_str :: "string \<Rightarrow> pyval" where
  "py_str s = PObj ''str'' [] (BStr s)"

definition py_list :: "pyval list \<Rightarrow> pyval" where
  "py_list xs = PObj ''list'' [] (BList xs)"

definition py_tuple :: "pyval list \<Rightarrow> pyval" where
  "py_tuple xs = PObj ''tuple'' [] (BTuple xs)"

definition py_dict :: "(string \<times> pyval) list \<Rightarrow> pyval" where
  "py_dict kvs = PObj ''dict'' [] (BDict kvs)"

definition py_object :: "string \<Rightarrow> (string \<times> pyval) list \<Rightarrow> pyval" where
  "py_object c fields = PObj c fields Plain"

fun is_none :: "pyval \<Rightarrow> bool" where
  "is_none PNone = True"
| "is_none (PObj c tab b) = False"

fun type_name :: "pyval \<Rightarrow> string" where
  "type_name PNone = ''NoneType''"
| "type_name (PObj c tab b) = c"

text \<open>\<open>getattr(current, name)\<close>. The replay never calls it on \<open>None\<close>.\<close>

fun py_getattr :: "pyval \<Rightarrow> string \<Rightarrow> exn + pyval" where
  "py_getattr PNone name = Inl (Host AttributeError)"
| "py_getattr (PObj c tab b) name =
     (case map_of tab name of
        Some v \<Rightarrow> Inr v
      | None \<Rightarrow> Inl (Host AttributeError))"

text \<open>\<open>isinstance(current, (list, tuple, str))\<close>\<close>

fun is_list_tuple_str :: "pyval \<Rightarrow> bool" where
  "is_list_tuple_str (PObj c tab (BList xs)) = True"
| "is_list_tuple_str (PObj c tab (BTuple xs)) = True"
| "is_list_tuple_str (PObj c tab (BStr s)) = True"
| "is_list_tuple_str v = False"

text \<open>
  \<open>str.isdigit\<close>: true of a non-empty string all of whose characters are digits. Below
  256 the digit characters are \<open>0\<close> to \<open>9\<close> and the superscripts U+00B2, U+00B3 and
  U+00B9; only \<open>0\<close> to \<open>9\<close> are decimal characters, which \<open>int\<close> accepts.
\<close>

definition chr_isdecimal :: "char \<Rightarrow> bool" where
  "chr_isdecimal c = (48 \<le> (of_char c :: nat) \<and> (of_char c :: nat) \<le> 57)"

definition chr_isdigit :: "char \<Rightarrow> bool" where
  "chr_isdigit c =
     (chr_isdecimal c \<or> (of_char c :: nat) = 178 \<or> (of_char c :: nat) = 179
        \<or> (of_char c :: nat) = 185)"

definition str_isdigit :: "string \<Rightarrow> bool" where
  "str_isdigit s = (s \<noteq> [] \<and> list_all chr_isdigit s)"

text \<open>
  \<open>int(part)\<close> on a string for which \<open>isdigit\<close> holds: the decimal value when every
  character is a decimal character, \<open>ValueError\<close> otherwise. (The interpreter's limit on
  the number of digits is left out.)
\<close>

definition decimal_value :: "string \<Rightarrow> int" where
  "decimal_value s = foldl (\<lambda>acc c. 10 * acc + (int (of_char c) - 48)) 0 s"

definition int_of_digits :: "string \<Rightarrow> exn + int" where
  "int_of_digits s =
     (if s \<noteq> [] \<and> list_all chr_isdecimal s then Inr (decimal_value s)
      else Inl (Host ValueError))"

text \<open>
  Subscription of a sequence by an integer, \<open>xs[n]\<close>: negative indices count from the
  end, and an index out of range raises \<open>IndexError\<close>.
\<close>

definition seq_index :: "'a list \<Rightarrow> int \<Rightarrow> exn + 'a" where
  "seq_index xs n =
     (if 0 \<le> n \<and> n < int (length xs) then Inr (xs ! nat n)
      else if - int (length xs) \<le> n \<and> n < 0 then Inr (xs ! nat (int (length xs) + n))
      else Inl (Host IndexError))"

text \<open>
  \<open>current[n]\<close> for an integer \<open>n\<close>. The replay reaches it on a list, a tuple or a
  string only; a character of a string is a string of length one.
\<close>

fun getitem_int :: "pyval \<Rightarrow> int \<Rightarrow> exn + pyval" where
  "getitem_int (PObj c tab (BList xs)) n = seq_index xs n"
| "getitem_int (PObj c tab (BTuple xs)) n = seq_index xs n"
| "getitem_int (PObj c tab (BStr s)) n =
     (case seq_index s n of Inl e \<Rightarrow> Inl e | Inr ch \<Rightarrow> Inr (py_str [ch]))"
| "getitem_int (PObj c tab (BDict kvs)) n = Inl (Host KeyError)"
| "getitem_int v n = Inl (Host TypeError)"

text \<open>
  \<open>current[part]\<close> for a \<open>str\<close> key: a mapping looks the key up (\<open>KeyError\<close> when it
  is absent); a list, a tuple and a string refuse a \<open>str\<close> index and the other values are
  not subscriptable (\<open>TypeError\<close>).
\<close>

fun getitem_key :: "pyval \<Rightarrow> string \<Rightarrow> exn + pyval" where
  "getitem_key (PObj c tab (BDict kvs)) k =
     (case map_of kvs k of Some v \<Rightarrow> Inr v | None \<Rightarrow> Inl (Host KeyError))"
| "getitem_key v k = Inl (Host TypeError)"

text \<open>\<open>sep.join(parts)\<close>\<close>

fun join :: "string \<Rightarrow> string list \<Rightarrow> string" where
  "join sep [] = []"
| "join sep [p] = p"
| "join sep (p # q # ps) = p @ sep @ join sep (q # ps)"

text \<open>\<open>s.startswith(p)\<close> and \<open>s.endswith(p)\<close>\<close>

definition startswith :: "string \<Rightarrow> string \<Rightarrow> bool" where
  "startswith s p = (take (length p) s = p)"

definition endswith :: "string \<Rightarrow> string \<Rightarrow> bool" where
  "endswith s p = (length p \<le> length s \<and> drop (length s - length p) s = p)"

text \<open>The apostrophe, for the quoted parts of messages and renderings.\<close>

definition apos :: string where
  "apos = [CHR 0x27]"

section \<open>The path-capturing proxy\<close>

text \<open>\<open>_PathProxy\<close>: one slot, \<open>_parts\<close>, a tuple of strings.\<close>

datatype pathproxy = PathProxy (proxy_parts: "string list")

text \<open>
  \<open>_PathProxy.__getattr__\<close>, the hook Python calls for a name that the normal lookup
  does not find on the proxy.
\<close>

definition proxy_getattr :: "pathproxy \<Rightarrow> string \<Rightarrow> exn + pathproxy" where
  "proxy_getattr self name =
     (if startswith name ''__'' \<and> endswith name ''__'' then Inl (Raised AttributeError name)
      else Inr (PathProxy (proxy_parts self @ [name])))"

text \<open>
  \<open>_PathProxy.__getitem__\<close>, for a key that is a \<open>str\<close>, whose \<open>str(key)\<close> is the key
  itself.
\<close>

definition proxy_getitem_str :: "pathproxy \<Rightarrow> string \<Rightarrow> pathproxy" where
  "proxy_getitem_str self key = PathProxy (proxy_parts self @ [key])"

text \<open>
  Reading an attribute of a proxy, \<open>x.name\<close>. Python looks the name up on the instance
  and its class first, and calls \<open>__getattr__\<close> only when that lookup finds nothing.
  The lookup finds the slot \<open>_parts\<close>, whose value is the tuple of segments; the names
  bound in the body of the class (its docstring, \<open>__slots__\<close> and the four methods);
  and the names the interpreter provides on every instance, inherited from \<open>object\<close> or
  set on the class (\<open>__class__\<close> among them), a parameter here.
\<close>

datatype accessed =
    AProxy pathproxy
  | ASlot "string list"
  | AClassAttr string

definition class_names :: "string list" where
  "class_names =
     [''__doc__'', ''__slots__'', ''__init__'', ''__getattr__'', ''__getitem__'',
      ''__setattr__'']"

definition proxy_access :: "string list \<Rightarrow> pathproxy \<Rightarrow> string \<Rightarrow> exn + accessed" where
  "proxy_access runtime_names self name =
     (if name = ''_parts'' then Inr (ASlot (proxy_parts self))
      else if name \<in> set class_names \<or> name \<in> set runtime_names then Inr (AClassAttr name)
      else
        (case proxy_getattr self name of
           Inl e \<Rightarrow> Inl e
         | Inr proxy \<Rightarrow> Inr (AProxy proxy)))"

section \<open>KeyOf\<close>

datatype keyof = KeyOf (parts: "string list")

text \<open>
  What a selector returns: a proxy (a chain of accesses) or some other value. A selector
  may also raise, as when it reads a dunder name from the proxy.
\<close>

datatype selected = Chain pathproxy | Literal pyval

definition init_message :: string where
  "init_message =
     ''KeyOf selector must return a property access chain, not a plain value. '' @
     ''Use  KeyOf(lambda x: x.some.attribute)  not  KeyOf(lambda x: '' @ apos @
     ''literal'' @ apos @ '').''"

text \<open>\<open>KeyOf.__init__\<close>\<close>

definition keyof_init :: "(pathproxy \<Rightarrow> exn + selected) \<Rightarrow> exn + keyof" where
  "keyof_init selector =
     (case selector (PathProxy []) of
        Inl e \<Rightarrow> Inl e
      | Inr (Chain proxy) \<Rightarrow> Inr (KeyOf (proxy_parts proxy))
      | Inr (Literal v) \<Rightarrow> Inl (Raised TypeError init_message))"

text \<open>The selector \<open>lambda u: u.address.city\<close>.\<close>

definition select_address_city :: "pathproxy \<Rightarrow> exn + selected" where
  "select_address_city u =
     (case proxy_getattr u ''address'' of
        Inl e \<Rightarrow> Inl e
      | Inr a \<Rightarrow>
          (case proxy_getattr a ''city'' of
             Inl e \<Rightarrow> Inl e
           | Inr c \<Rightarrow> Inr (Chain c)))"

subsection \<open>Replay\<close>

definition none_message :: "string \<Rightarrow> string \<Rightarrow> string \<Rightarrow> string" where
  "none_message part resolved tname =
     ''Cannot resolve '' @ apos @ part @ apos @ '' on None (reached via '' @ apos @
     resolved @ apos @ '' on '' @ tname @ '')''"

definition unresolved_message :: "string \<Rightarrow> string \<Rightarrow> string \<Rightarrow> string" where
  "unresolved_message part tname resolved =
     ''Cannot resolve '' @ apos @ part @ apos @ '' on '' @ tname @ '' (path: '' @ apos @
     resolved @ apos @ '')''"

text \<open>
  The body of the inner \<open>try\<close>: subscription by the integer the segment denotes when
  \<open>current\<close> is a list, a tuple or a string and \<open>part.isdigit()\<close>, by the segment as a
  key otherwise.
\<close>

definition item_access :: "pyval \<Rightarrow> string \<Rightarrow> exn + pyval" where
  "item_access current part =
     (if is_list_tuple_str current \<and> str_isdigit part then
        (case int_of_digits part of
           Inl e \<Rightarrow> Inl e
         | Inr n \<Rightarrow> getitem_int current n)
      else getitem_key current part)"

text \<open>
  The clause \<open>except (KeyError, IndexError, TypeError)\<close>: the default when one was given
  (\<open>Some d\<close>), an \<open>AttributeError\<close> when none was (\<open>None\<close>, the sentinel \<open>_MISSING\<close>);
  an exception of another kind is not caught.
\<close>

definition item_failed :: "pyval option \<Rightarrow> string \<Rightarrow> exn \<Rightarrow> exn + pyval" where
  "item_failed dflt msg e =
     (if kind e = KeyError \<or> kind e = IndexError \<or> kind e = TypeError then
        (case dflt of
           None \<Rightarrow> Inl (Raised AttributeError msg)
         | Some d \<Rightarrow> Inr d)
      else Inl e)"

text \<open>
  The loop of \<open>from_\<close> over \<open>enumerate(self._parts)\<close>: \<open>ps\<close> is \<open>self._parts\<close>, \<open>i\<close> the
  index of the next segment, the list argument the segments from \<open>i\<close> on.
\<close>

fun from_loop ::
  "string list \<Rightarrow> pyval \<Rightarrow> pyval option \<Rightarrow> nat \<Rightarrow> string list \<Rightarrow> pyval \<Rightarrow> exn + pyval" where
  "from_loop ps obj dflt i [] current = Inr current"
| "from_loop ps obj dflt i (part # rest) current =
     (if is_none current then
        (case dflt of
           None \<Rightarrow>
             Inl (Raised AttributeError
                    (none_message part (join ''.'' (take i ps)) (type_name obj)))
         | Some d \<Rightarrow> Inr d)
      else
        (case py_getattr current part of
           Inr v \<Rightarrow> from_loop ps obj dflt (Suc i) rest v
         | Inl e \<Rightarrow>
             (if kind e = AttributeError then
                (case item_access current part of
                   Inr v \<Rightarrow> from_loop ps obj dflt (Suc i) rest v
                 | Inl e' \<Rightarrow>
                     item_failed dflt
                       (unresolved_message part (type_name current)
                          (join ''.'' (take i ps)))
                       e')
              else Inl e)))"

text \<open>
  \<open>KeyOf.from_\<close> (named \<open>keyof_from\<close>: an identifier cannot end in an underscore);
  \<open>dflt = None\<close> is the call without a default.
\<close>

definition keyof_from :: "keyof \<Rightarrow> pyval \<Rightarrow> pyval option \<Rightarrow> exn + pyval" where
  "keyof_from self obj dflt = from_loop (parts self) obj dflt 0 (parts self) obj"

subsection \<open>Introspection\<close>

definition depth :: "keyof \<Rightarrow> nat" where
  "depth self = length (parts self)"

text \<open>\<open>self._parts[-1]\<close> and \<open>self._parts[0]\<close>\<close>

definition leaf :: "keyof \<Rightarrow> exn + string" where
  "leaf self = seq_index (parts self) (- 1)"

definition root :: "keyof \<Rightarrow> exn + string" where
  "root self = seq_index (parts self) 0"

subsection \<open>Serialization\<close>

definition to_dot :: "keyof \<Rightarrow> string" where
  "to_dot self = join ''.'' (parts self)"

definition to_bracket :: "keyof \<Rightarrow> string" where
  "to_bracket self = concat (map (\<lambda>p. ''['' @ apos @ p @ apos @ '']'') (parts self))"

definition to_jsonpath :: "keyof \<Rightarrow> string" where
  "to_jsonpath self = ''$.'' @ join ''.'' (parts self)"

text \<open>\<open>KeyOf.parent\<close>; \<open>self._parts[:-1]\<close> is all but the last element.\<close>

definition parent_message :: "keyof \<Rightarrow> string" where
  "parent_message self =
     ''Path '' @ apos @ to_dot self @ apos @ '' has no parent (depth=1).''"

definition parent :: "keyof \<Rightarrow> exn + keyof" where
  "parent self =
     (if length (parts self) < 2 then Inl (Raised ValueError (parent_message self))
      else Inr (KeyOf (take (length (parts self) - 1) (parts self))))"

subsection \<open>Equality and hashing\<close>

text \<open>The right operand of a comparison: a \<open>KeyOf\<close> or a value.\<close>

datatype operand = OKeyOf keyof | OVal pyval

text \<open>\<open>isinstance(v, str)\<close>\<close>

fun is_str :: "pyval \<Rightarrow> bool" where
  "is_str (PObj c tab (BStr s)) = True"
| "is_str v = False"

text \<open>
  \<open>KeyOf.__eq__\<close>; \<open>None\<close> is \<open>NotImplemented\<close>. \<open>isinstance(other, str)\<close> holds of the
  values with a \<open>str\<close> body.
\<close>

fun keyof_eq :: "keyof \<Rightarrow> operand \<Rightarrow> bool option" where
  "keyof_eq self (OKeyOf other) = Some (parts self = parts other)"
| "keyof_eq self (OVal (PObj c tab (BStr s))) = Some (to_dot self = s)"
| "keyof_eq self (OVal v) = None"

text \<open>
  \<open>self == other\<close>. When \<open>__eq__\<close> returns \<open>NotImplemented\<close> Python asks the other
  operand, whose class (one of those above) does not know \<open>KeyOf\<close> and answers
  \<open>NotImplemented\<close> too, and then compares identities: the two are different objects.
\<close>

definition equals :: "keyof \<Rightarrow> operand \<Rightarrow> bool" where
  "equals self other = (case keyof_eq self other of Some b \<Rightarrow> b | None \<Rightarrow> False)"

text \<open>
  \<open>KeyOf.__hash__\<close>: the hash of the tuple of segments, by the interpreter's hash
  function on tuples of strings, a parameter here.
\<close>

definition keyof_hash :: "(string list \<Rightarrow> int) \<Rightarrow> keyof \<Rightarrow> int" where
  "keyof_hash tuple_hash self = tuple_hash (parts self)"

section \<open>Auxiliary facts\<close>

lemma startswith_iff_prefix: "startswith s p \<longleftrightarrow> prefix p s"
proof
  assume "startswith s p"
  then have "take (length p) s = p" by (simp add: startswith_def)
  then have "s = p @ drop (length p) s" by (metis append_take_drop_id)
  then show "prefix p s" by (rule prefixI)
next
  assume "prefix p s"
  then obtain zs where "s = p @ zs" by (auto elim: prefixE)
  then show "startswith s p" by (simp add: startswith_def)
qed

lemma endswith_iff_suffix: "endswith s p \<longleftrightarrow> suffix p s"
proof
  assume "endswith s p"
  then have d: "drop (length s - length p) s = p" by (simp add: endswith_def)
  have "s = take (length s - length p) s @ drop (length s - length p) s" by simp
  with d have "s = take (length s - length p) s @ p" by simp
  then show "suffix p s" by (rule suffixI)
next
  assume "suffix p s"
  then obtain zs where "s = zs @ p" by (auto elim: suffixE)
  then show "endswith s p" by (simp add: endswith_def)
qed

text \<open>
  When the replay of \<open>xs\<close> without a default succeeds, a replay of \<open>xs @ ys\<close> comes
  to \<open>ys\<close> with the same value, whatever the default and the tuple named in messages.
\<close>

lemma from_loop_append:
  "from_loop ps1 obj1 None i1 xs cur = Inr v \<Longrightarrow>
   from_loop ps2 obj2 dflt i2 (xs @ ys) cur = from_loop ps2 obj2 dflt (i2 + length xs) ys v"
proof (induction xs arbitrary: cur i1 i2)
  case Nil
  then show ?case by simp
next
  case (Cons part rest)
  from Cons.prems have nn: "\<not> is_none cur" by (auto split: if_splits)
  show ?case
  proof (cases "py_getattr cur part")
    case (Inr w)
    with Cons.prems nn have "from_loop ps1 obj1 None (Suc i1) rest w = Inr v" by simp
    from Cons.IH [OF this, of "Suc i2"] Inr nn show ?thesis by simp
  next
    case (Inl e)
    with Cons.prems nn have ka: "kind e = AttributeError" by (auto split: if_splits)
    show ?thesis
    proof (cases "item_access cur part")
      case (Inr w)
      with Cons.prems nn Inl ka have "from_loop ps1 obj1 None (Suc i1) rest w = Inr v" by simp
      from Cons.IH [OF this, of "Suc i2"] Inr Inl ka nn show ?thesis by simp
    next
      case il: (Inl e')
      with Cons.prems nn Inl ka have False
        by (auto simp add: item_failed_def split: if_splits)
      then show ?thesis ..
    qed
  qed
qed

lemma keyof_from_prefix:
  assumes "keyof_from (KeyOf pre) obj None = Inr v"
  shows "keyof_from (KeyOf (pre @ ys)) obj dflt =
         from_loop (pre @ ys) obj dflt (length pre) ys v"
  using from_loop_append [of pre obj 0 pre obj v "pre @ ys" obj dflt 0 ys] assms
  by (simp add: keyof_from_def)








section \<open>The claims\<close>

text \<open>
  C1. The path built by the selector that reads \<open>address\<close> and then \<open>city\<close> has the
  segments \<open>address\<close>, \<open>city\<close>; replayed against an object whose \<open>address\<close> holds an
  object whose \<open>city\<close> is \<open>London\<close> (record-like, or nested mappings) it returns
  \<open>London\<close>; \<open>to_dot\<close> is \<open>address.city\<close>, \<open>to_bracket\<close> is \<open>['address']['city']\<close>
  and \<open>to_jsonpath\<close> is \<open>$.address.city\<close>.
\<close>

theorem scenario_address_city:
  "keyof_init select_address_city = Inr (KeyOf [''address'', ''city'']) \<and>
   keyof_from (KeyOf [''address'', ''city''])
     (py_object ''User'' [(''address'', py_object ''Address'' [(''city'', py_str ''London'')])])
     None = Inr (py_str ''London'') \<and>
   keyof_from (KeyOf [''address'', ''city''])
     (py_dict [(''address'', py_dict [(''city'', py_str ''London'')])])
     None = Inr (py_str ''London'') \<and>
   to_dot (KeyOf [''address'', ''city'']) = ''address.city'' \<and>
   to_bracket (KeyOf [''address'', ''city'']) =
     ''['' @ apos @ ''address'' @ apos @ ''][''  @ apos @ ''city'' @ apos @ '']'' \<and>
   to_jsonpath (KeyOf [''address'', ''city'']) = ''$.address.city''"
proof -
  have a: "keyof_init select_address_city = Inr (KeyOf [''address'', ''city''])"
    by (simp add: keyof_init_def select_address_city_def proxy_getattr_def
        startswith_def endswith_def)
  have b: "keyof_from (KeyOf [''address'', ''city''])
     (py_object ''User'' [(''address'', py_object ''Address'' [(''city'', py_str ''London'')])])
     None = Inr (py_str ''London'')"
    by (simp add: keyof_from_def py_object_def py_str_def)
  have c: "keyof_from (KeyOf [''address'', ''city''])
     (py_dict [(''address'', py_dict [(''city'', py_str ''London'')])])
     None = Inr (py_str ''London'')"
    by (simp add: keyof_from_def py_dict_def py_str_def item_access_def str_isdigit_def
        chr_isdigit_def chr_isdecimal_def)
  have d: "to_dot (KeyOf [''address'', ''city'']) = ''address.city''"
    by (simp add: to_dot_def)
  have e: "to_bracket (KeyOf [''address'', ''city'']) =
     ''['' @ apos @ ''address'' @ apos @ ''][''  @ apos @ ''city'' @ apos @ '']''"
    by (simp add: to_bracket_def)
  have f: "to_jsonpath (KeyOf [''address'', ''city'']) = ''$.address.city''"
    by (simp add: to_jsonpath_def)
  from a b c d e f show ?thesis by blast
qed

text \<open>
  C2. In the replay, at a segment \<open>part\<close> and a current value that is not \<open>None\<close>: the
  attribute lookup comes first, and when it finds a value the replay goes on with it,
  whatever a subscription would give. When it raises \<open>AttributeError\<close>, the replay goes
  on with \<open>current[int(part)]\<close> if the current value is a list, a tuple or a string and
  \<open>part.isdigit()\<close>, and with \<open>current[part]\<close>, the segment as a mapping key,
  otherwise; a failure of either goes to the \<open>except\<close> clause.
\<close>

theorem replay_fallback_order:
  assumes "\<not> is_none current"
  shows "(py_getattr current part = Inr v \<longrightarrow>
            from_loop ps obj dflt i (part # rest) current =
              from_loop ps obj dflt (Suc i) rest v) \<and>
         (py_getattr current part = Inl (Host AttributeError) \<and>
          is_list_tuple_str current \<and> str_isdigit part \<longrightarrow>
            from_loop ps obj dflt i (part # rest) current =
              (case (case int_of_digits part of
                       Inl e \<Rightarrow> Inl e
                     | Inr n \<Rightarrow> getitem_int current n) of
                 Inr w \<Rightarrow> from_loop ps obj dflt (Suc i) rest w
               | Inl e' \<Rightarrow>
                   item_failed dflt
                     (unresolved_message part (type_name current) (join ''.'' (take i ps)))
                     e')) \<and>
         (py_getattr current part = Inl (Host AttributeError) \<and>
          \<not> (is_list_tuple_str current \<and> str_isdigit part) \<longrightarrow>
            from_loop ps obj dflt i (part # rest) current =
              (case getitem_key current part of
                 Inr w \<Rightarrow> from_loop ps obj dflt (Suc i) rest w
               | Inl e' \<Rightarrow>
                   item_failed dflt
                     (unresolved_message part (type_name current) (join ''.'' (take i ps)))
                     e'))"
  using assms by (simp add: item_access_def)

theorem replay_fallback_order_witness:
  "from_loop [''k''] (py_int 0) None 0 [''k'']
     (PObj ''Box'' [(''k'', py_int 1)] (BDict [(''k'', py_int 2)])) = Inr (py_int 1) \<and>
   from_loop [''1''] (py_int 0) None 0 [''1''] (py_list [py_int 10, py_int 20]) =
     Inr (py_int 20) \<and>
   from_loop [''k''] (py_int 0) None 0 [''k''] (py_dict [(''k'', py_int 2)]) =
     Inr (py_int 2)"
proof -
  have n1: "\<not> is_none (PObj ''Box'' [(''k'', py_int 1)] (BDict [(''k'', py_int 2)]))"
    by simp
  have n2: "\<not> is_none (py_list [py_int 10, py_int 20])" by (simp add: py_list_def)
  have n3: "\<not> is_none (py_dict [(''k'', py_int 2)])" by (simp add: py_dict_def)
  have a: "from_loop [''k''] (py_int 0) None 0 [''k'']
     (PObj ''Box'' [(''k'', py_int 1)] (BDict [(''k'', py_int 2)])) = Inr (py_int 1)"
    using replay_fallback_order [OF n1, of "''k''" "py_int 1" "[''k'']" "py_int 0" None 0 "[]"]
    by simp
  have b: "from_loop [''1''] (py_int 0) None 0 [''1''] (py_list [py_int 10, py_int 20]) =
     Inr (py_int 20)"
    using replay_fallback_order [OF n2, of "''1''" PNone "[''1'']" "py_int 0" None 0 "[]"]
    by (simp add: py_list_def str_isdigit_def chr_isdigit_def chr_isdecimal_def
        int_of_digits_def decimal_value_def seq_index_def)
  have c: "from_loop [''k''] (py_int 0) None 0 [''k''] (py_dict [(''k'', py_int 2)]) =
     Inr (py_int 2)"
    using replay_fallback_order [OF n3, of "''k''" PNone "[''k'']" "py_int 0" None 0 "[]"]
    by (simp add: py_dict_def str_isdigit_def chr_isdigit_def chr_isdecimal_def)
  from a b c show ?thesis by blast
qed


text \<open>
  C3 (the code departs from it). With a default the replay is to return the default on
  any failure to resolve. A segment such as U+00B2, recorded by \<open>x[key]\<close> on the proxy,
  passes \<open>isdigit\<close> but is refused by \<open>int\<close>: against a list, the \<open>ValueError\<close> is
  not among the exceptions caught and leaves \<open>from_\<close>, with a default as without one.
\<close>

theorem superscript_digit_escapes_default:
  "keyof_init (\<lambda>x. Inr (Chain (proxy_getitem_str x [CHR 0xB2]))) = Inr (KeyOf [[CHR 0xB2]]) \<and>
   keyof_from (KeyOf [[CHR 0xB2]]) (py_list [py_int 10, py_int 20, py_int 30])
     (Some (py_str ''N/A'')) = Inl (Host ValueError) \<and>
   keyof_from (KeyOf [[CHR 0xB2]]) (py_list [py_int 10, py_int 20, py_int 30])
     None = Inl (Host ValueError)"
  by (simp add: keyof_init_def proxy_getitem_str_def keyof_from_def py_list_def
      item_access_def str_isdigit_def chr_isdigit_def chr_isdecimal_def int_of_digits_def
      item_failed_def)

text \<open>
  C4. When the segments before \<open>part\<close> resolve to \<open>None\<close>, so that the current value is
  \<open>None\<close> as \<open>part\<close> is about to be consumed: without a default the call raises an
  \<open>AttributeError\<close> whose message names \<open>part\<close> and the dot-joined segments already
  resolved; with a default \<open>d\<close> it returns \<open>d\<close>, whatever the segments after \<open>part\<close>.
\<close>

theorem none_before_segment:
  assumes "keyof_from (KeyOf pre) obj None = Inr PNone"
  shows "keyof_from (KeyOf (pre @ part # rest)) obj None =
           Inl (Raised AttributeError
                  (''Cannot resolve '' @ apos @ part @ apos @ '' on None (reached via '' @
                   apos @ join ''.'' pre @ apos @ '' on '' @ type_name obj @ '')''))
       \<and> keyof_from (KeyOf (pre @ part # rest)) obj (Some d) = Inr d"
  using keyof_from_prefix [OF assms, of "part # rest"] by (simp add: none_message_def)

theorem none_before_segment_witness:
  "keyof_from (KeyOf [''address'', ''city'', ''name''])
     (py_object ''User'' [(''address'', PNone)]) None =
     Inl (Raised AttributeError
            (''Cannot resolve '' @ apos @ ''city'' @ apos @ '' on None (reached via '' @
             apos @ ''address'' @ apos @ '' on User)'')) \<and>
   keyof_from (KeyOf [''address'', ''city'', ''name''])
     (py_object ''User'' [(''address'', PNone)]) (Some (py_str ''N/A'')) =
     Inr (py_str ''N/A'')"
proof -
  have h: "keyof_from (KeyOf [''address'']) (py_object ''User'' [(''address'', PNone)]) None =
           Inr PNone"
    by (simp add: keyof_from_def py_object_def)
  show ?thesis
    using none_before_segment [OF h, of "''city''" "[''name'']" "py_str ''N/A''"]
    by (simp add: py_object_def)
qed

text \<open>
  C5. Construction raises \<open>TypeError\<close> whenever the selector returns a value that is not
  a proxy, and when the selector returns a proxy the segments of the new \<open>KeyOf\<close> are the
  segments that proxy has accumulated.
\<close>

theorem construction_needs_proxy:
  "(selector (PathProxy []) = Inr (Literal v) \<longrightarrow>
      keyof_init selector = Inl (Raised TypeError init_message)) \<and>
   (selector (PathProxy []) = Inr (Chain proxy) \<longrightarrow>
      keyof_init selector = Inr (KeyOf (proxy_parts proxy)))"
  by (simp add: keyof_init_def)

theorem construction_needs_proxy_witness:
  "keyof_init (\<lambda>x. Inr (Literal (py_str ''x''))) = Inl (Raised TypeError init_message) \<and>
   keyof_init (\<lambda>x. Inr (Literal (py_int 123))) = Inl (Raised TypeError init_message) \<and>
   keyof_init select_address_city = Inr (KeyOf [''address'', ''city''])"
proof -
  have s: "select_address_city (PathProxy []) =
           Inr (Chain (PathProxy [''address'', ''city'']))"
    by (simp add: select_address_city_def proxy_getattr_def startswith_def endswith_def)
  have a: "keyof_init (\<lambda>x. Inr (Literal (py_str ''x''))) = Inl (Raised TypeError init_message)"
    using construction_needs_proxy [of "\<lambda>x. Inr (Literal (py_str ''x''))" "py_str ''x''"]
    by simp
  have b: "keyof_init (\<lambda>x. Inr (Literal (py_int 123))) = Inl (Raised TypeError init_message)"
    using construction_needs_proxy [of "\<lambda>x. Inr (Literal (py_int 123))" "py_int 123"]
    by simp
  have c: "keyof_init select_address_city = Inr (KeyOf [''address'', ''city''])"
    using construction_needs_proxy
      [of select_address_city _ "PathProxy [''address'', ''city'']"] s
    by simp
  from a b c show ?thesis by blast
qed

text \<open>
  C6 (as stated, of every attribute name, it fails). Reading \<open>_parts\<close>, which is not
  a dunder name, returns the tuple of segments and no proxy; reading a dunder name that
  the class binds or the interpreter provides, such as \<open>__getitem__\<close> or
  \<open>__class__\<close>, returns that attribute and does not raise.
\<close>

theorem proxy_access_found_by_lookup:
  "(prefix ''__'' ''_parts'' \<and> suffix ''__'' ''_parts'') = False \<and>
   proxy_access [''__class__''] (PathProxy [''address'']) ''_parts'' =
     Inr (ASlot [''address'']) \<and>
   (prefix ''__'' ''__getitem__'' \<and> suffix ''__'' ''__getitem__'') = True \<and>
   proxy_access [''__class__''] (PathProxy [''address'']) ''__getitem__'' =
     Inr (AClassAttr ''__getitem__'') \<and>
   (prefix ''__'' ''__class__'' \<and> suffix ''__'' ''__class__'') = True \<and>
   proxy_access [''__class__''] (PathProxy [''address'']) ''__class__'' =
     Inr (AClassAttr ''__class__'')"
  by (simp add: proxy_access_def class_names_def suffix_def)

text \<open>
  C6, amended. For every proxy and every attribute name that the lookup on the instance and
  its class does not find (a name other than the slot \<open>_parts\<close>, the names bound in the
  class body and the names the interpreter provides), so that the access is answered by
  \<open>__getattr__\<close>: a name that starts with two underscores and ends with two
  underscores raises \<open>AttributeError\<close>; any other name gives a new proxy whose segments
  are those of the proxy followed by the name. The proxy is a value: nothing of it changes.
\<close>

theorem proxy_access_appends_or_rejects:
  assumes "name \<noteq> ''_parts''"
    and "name \<notin> set class_names"
    and "name \<notin> set runtime_names"
  shows "(prefix ''__'' name \<and> suffix ''__'' name \<longrightarrow>
            proxy_access runtime_names p name = Inl (Raised AttributeError name)) \<and>
         (\<not> (prefix ''__'' name \<and> suffix ''__'' name) \<longrightarrow>
            proxy_access runtime_names p name =
              Inr (AProxy (PathProxy (proxy_parts p @ [name]))))"
  using assms
  by (simp add: proxy_access_def proxy_getattr_def startswith_iff_prefix endswith_iff_suffix)

theorem proxy_access_appends_or_rejects_witness:
  "proxy_access [''__class__''] (PathProxy [''address'']) ''__len__'' =
     Inl (Raised AttributeError ''__len__'') \<and>
   proxy_access [''__class__''] (PathProxy [''address'']) ''city'' =
     Inr (AProxy (PathProxy [''address'', ''city'']))"
proof -
  have d: "prefix ''__'' ''__len__'' \<and> suffix ''__'' ''__len__''"
    by (simp add: suffix_def)
  have n: "\<not> (prefix ''__'' ''city'' \<and> suffix ''__'' ''city'')" by simp
  have l1: "''__len__'' \<noteq> ''_parts''" by simp
  have l2: "''__len__'' \<notin> set class_names" by (simp add: class_names_def)
  have l3: "''__len__'' \<notin> set [''__class__'']" by simp
  have c1: "''city'' \<noteq> ''_parts''" by simp
  have c2: "''city'' \<notin> set class_names" by (simp add: class_names_def)
  have c3: "''city'' \<notin> set [''__class__'']" by simp
  have a: "proxy_access [''__class__''] (PathProxy [''address'']) ''__len__'' =
     Inl (Raised AttributeError ''__len__'')"
    using proxy_access_appends_or_rejects [OF l1 l2 l3, of "PathProxy [''address'']"] d
    by blast
  have b: "proxy_access [''__class__''] (PathProxy [''address'']) ''city'' =
     Inr (AProxy (PathProxy [''address'', ''city'']))"
    using proxy_access_appends_or_rejects [OF c1 c2 c3, of "PathProxy [''address'']"] n
    by simp
  from a b show ?thesis by blast
qed

text \<open>
  C7. For a path of depth at least 2, \<open>parent\<close> returns the path whose segments are all
  but the last; for a path of depth less than 2 (one segment, or none) it raises
  \<open>ValueError\<close>.
\<close>

theorem parent_drops_last_segment:
  "(2 \<le> depth p \<longrightarrow> parent p = Inr (KeyOf (butlast (parts p)))) \<and>
   (depth p < 2 \<longrightarrow> parent p = Inl (Raised ValueError (parent_message p)))"
  by (simp add: parent_def depth_def butlast_conv_take)

theorem parent_drops_last_segment_witness:
  "parent (KeyOf [''a'', ''b'', ''c'']) = Inr (KeyOf [''a'', ''b'']) \<and>
   parent (KeyOf [''a'']) = Inl (Raised ValueError (parent_message (KeyOf [''a''])))"
proof -
  have a: "parent (KeyOf [''a'', ''b'', ''c'']) = Inr (KeyOf [''a'', ''b''])"
    using parent_drops_last_segment [of "KeyOf [''a'', ''b'', ''c'']"]
    by (simp add: depth_def)
  have b: "parent (KeyOf [''a'']) = Inl (Raised ValueError (parent_message (KeyOf [''a''])))"
    using parent_drops_last_segment [of "KeyOf [''a'']"]
    by (simp add: depth_def)
  from a b show ?thesis by blast
qed

text \<open>
  C8. Two paths are equal exactly when their segment sequences have the same length and
  the same segment at every position; a path equals a string exactly when the string is
  its dot-joined rendering; a path is not equal to a value of any other type; and two
  equal paths have the same hash, whatever the hash function on tuples.
\<close>

theorem equality_and_hash:
  "(equals a (OKeyOf b) \<longleftrightarrow>
      length (parts a) = length (parts b) \<and>
      (\<forall>i < length (parts a). parts a ! i = parts b ! i)) \<and>
   (equals a (OVal (PObj c tab (BStr s))) \<longleftrightarrow> s = to_dot a) \<and>
   (\<not> is_str v \<longrightarrow> \<not> equals a (OVal v)) \<and>
   (equals a (OKeyOf b) \<longrightarrow> keyof_hash tuple_hash a = keyof_hash tuple_hash b)"
proof -
  have k: "equals a (OKeyOf b) \<longleftrightarrow> parts a = parts b"
    by (simp add: equals_def)
  have s: "equals a (OVal (PObj c tab (BStr s))) \<longleftrightarrow> s = to_dot a"
    by (auto simp add: equals_def)
  have o: "\<not> is_str v \<longrightarrow> \<not> equals a (OVal v)"
  proof (cases v)
    case PNone
    then show ?thesis by (simp add: equals_def)
  next
    case (PObj c' tab' b')
    then show ?thesis by (cases b') (simp_all add: equals_def)
  qed
  have h: "equals a (OKeyOf b) \<longrightarrow> keyof_hash tuple_hash a = keyof_hash tuple_hash b"
    by (simp add: equals_def keyof_hash_def)
  from k s o h show ?thesis by (simp add: list_eq_iff_nth_eq)
qed

theorem equality_and_hash_witness:
  "equals (KeyOf [''a'', ''b'']) (OKeyOf (KeyOf [''a'', ''b''])) \<and>
   \<not> equals (KeyOf [''a'', ''b'']) (OKeyOf (KeyOf [''a''])) \<and>
   equals (KeyOf [''a'', ''b'']) (OVal (py_str ''a.b'')) \<and>
   \<not> equals (KeyOf [''a'', ''b'']) (OVal (py_int 123)) \<and>
   keyof_hash (\<lambda>ps. int (length ps)) (KeyOf [''a'', ''b'']) =
     keyof_hash (\<lambda>ps. int (length ps)) (KeyOf [''a'', ''b''])"
proof -
  have a: "equals (KeyOf [''a'', ''b'']) (OKeyOf (KeyOf [''a'', ''b'']))"
    using equality_and_hash [of "KeyOf [''a'', ''b'']" "KeyOf [''a'', ''b'']"] by simp
  have b: "\<not> equals (KeyOf [''a'', ''b'']) (OKeyOf (KeyOf [''a'']))"
    using equality_and_hash [of "KeyOf [''a'', ''b'']" "KeyOf [''a'']"] by simp
  have c: "equals (KeyOf [''a'', ''b'']) (OVal (py_str ''a.b''))"
    using equality_and_hash [of "KeyOf [''a'', ''b'']" _ "''str''" "[]" "''a.b''"]
    by (simp add: py_str_def to_dot_def)
  have d: "\<not> equals (KeyOf [''a'', ''b'']) (OVal (py_int 123))"
    using equality_and_hash [of "KeyOf [''a'', ''b'']" _ _ _ _ "py_int 123"]
    by (simp add: py_int_def)
  have h: "keyof_hash (\<lambda>ps. int (length ps)) (KeyOf [''a'', ''b'']) =
     keyof_hash (\<lambda>ps. int (length ps)) (KeyOf [''a'', ''b''])"
    using equality_and_hash
      [of "KeyOf [''a'', ''b'']" "KeyOf [''a'', ''b'']" _ _ _ _ "\<lambda>ps. int (length ps)"] a
    by blast
  from a b c d h show ?thesis by blast
qed

text \<open>
  C9. For the identity path, of depth 0: the replay returns the instance it is given,
  with a default or without; \<open>to_dot\<close> is the empty string; \<open>root\<close> and \<open>leaf\<close> raise
  (\<open>IndexError\<close>) and \<open>parent\<close> raises (\<open>ValueError\<close>).
\<close>

theorem identity_path:
  assumes "depth p = 0"
  shows "keyof_from p obj dflt = Inr obj \<and>
         to_dot p = [] \<and>
         root p = Inl (Host IndexError) \<and>
         leaf p = Inl (Host IndexError) \<and>
         parent p = Inl (Raised ValueError (parent_message p))"
  using assms
  by (simp add: depth_def keyof_from_def to_dot_def root_def leaf_def seq_index_def
      parent_def)

theorem identity_path_witness:
  "keyof_init (\<lambda>x. Inr (Chain x)) = Inr (KeyOf []) \<and>
   keyof_from (KeyOf []) (py_int 7) None = Inr (py_int 7) \<and>
   keyof_from (KeyOf []) PNone (Some (py_int 7)) = Inr PNone \<and>
   to_dot (KeyOf []) = [] \<and>
   root (KeyOf []) = Inl (Host IndexError) \<and>
   leaf (KeyOf []) = Inl (Host IndexError) \<and>
   parent (KeyOf []) = Inl (Raised ValueError (parent_message (KeyOf [])))"
proof -
  have z: "depth (KeyOf []) = 0" by (simp add: depth_def)
  have i: "keyof_init (\<lambda>x. Inr (Chain x)) = Inr (KeyOf [])"
    by (simp add: keyof_init_def)
  show ?thesis
    using i identity_path [OF z, of "py_int 7" None]
      identity_path [OF z, of PNone "Some (py_int 7)"]
    by simp
qed



end
